theory Spec2Isabelle
  imports Main "HOL-Library.Sublist" "HOL-Library.Product_Lexorder"
begin

section \<open>Strings and decimal numbers\<close>

text \<open>
  Text is a \<^typ>\<open>string\<close>: a list of 8-bit characters. The program's literals contain
  a few characters beyond ASCII (emoji and a typographic apostrophe); they are written
  here as their UTF-8 bytes. The character classes of regular expressions (\<open>\d\<close>, the
  case-insensitive flag) and \<open>str.lower\<close>, \<open>str.strip\<close> are modelled on ASCII.
\<close>

definition is_digit :: "char \<Rightarrow> bool" where
  "is_digit c = (c \<in> set ''0123456789'')"

definition digit_val :: "char \<Rightarrow> nat" where
  "digit_val c = of_char c - 48"

definition digit_char :: "nat \<Rightarrow> char" where
  "digit_char n = ''0123456789'' ! (n mod 10)"

text \<open>\<open>str(n)\<close> for a natural number, and the two-digit zero padding of \<open>%d\<close>, \<open>%m\<close>.\<close>

fun str_nat :: "nat \<Rightarrow> string" where
  "str_nat n = (if n < 10 then [digit_char n] else str_nat (n div 10) @ [digit_char n])"

definition pad2 :: "nat \<Rightarrow> string" where
  "pad2 n = (if n < 10 then CHR ''0'' # str_nat n else str_nat n)"

definition is_space :: "char \<Rightarrow> bool" where
  "is_space c = (c \<in> set [CHR '' '', CHR 0x09, CHR 0x0A, CHR 0x0B, CHR 0x0C, CHR 0x0D])"

text \<open>\<open>str.strip()\<close>: leading and trailing white space removed.\<close>

definition strip :: "string \<Rightarrow> string" where
  "strip s = rev (dropWhile is_space (rev (dropWhile is_space s)))"

text \<open>\<open>str.lower()\<close> on ASCII letters.\<close>

definition lower_char :: "char \<Rightarrow> char" where
  "lower_char c =
     (case map_of (zip ''ABCDEFGHIJKLMNOPQRSTUVWXYZ'' ''abcdefghijklmnopqrstuvwxyz'') c of
        Some l \<Rightarrow> l
      | None \<Rightarrow> c)"

definition lower :: "string \<Rightarrow> string" where
  "lower s = map lower_char s"

text \<open>\<open>str.replace(a, b)\<close> for one-character \<open>a\<close> and \<open>b\<close>.\<close>

definition replace_char :: "char \<Rightarrow> char \<Rightarrow> string \<Rightarrow> string" where
  "replace_char a b s = map (\<lambda>c. if c = a then b else c) s"

text \<open>
  \<open>int(s)\<close>: white space around the digits is ignored; anything but a non-empty run
  of digits raises, which is \<open>None\<close> here.
\<close>

definition py_int :: "string \<Rightarrow> nat option" where
  "py_int s =
     (let t = strip s
      in if t \<noteq> [] \<and> list_all is_digit t
         then Some (foldl (\<lambda>a c. 10 * a + digit_val c) 0 t) else None)"

text \<open>\<open>sep.join(xs)\<close>.\<close>

fun join :: "string \<Rightarrow> string list \<Rightarrow> string" where
  "join sep [] = []"
| "join sep [x] = x"
| "join sep (x # y # ys) = x @ sep @ join sep (y # ys)"

text \<open>\<open>s.split(c)\<close> for a one-character separator: the fields between the separators.\<close>

fun split_on :: "char \<Rightarrow> string \<Rightarrow> string list" where
  "split_on c [] = [[]]"
| "split_on c (x # xs) =
     (if x = c then [] # split_on c xs
      else (case split_on c xs of [] \<Rightarrow> [[x]] | w # ws \<Rightarrow> (x # w) # ws))"

text \<open>Literal substring search: what \<open>re.search\<close> does with a pattern of letters and spaces.\<close>

fun str_contains :: "string \<Rightarrow> string \<Rightarrow> bool" where
  "str_contains [] pat = (pat = [])"
| "str_contains (c # cs) pat = (prefix pat (c # cs) \<or> str_contains cs pat)"

section \<open>Calendar dates\<close>

text \<open>
  A Python \<open>datetime\<close> and a pandas \<open>Timestamp\<close> are both read by the program only
  through their calendar date: every \<open>Timestamp\<close> it holds is at midnight (parsed with
  \<open>%d/%m/%Y\<close>, or normalised), and a \<open>datetime\<close> is only formatted with \<open>%d/%m/%Y\<close> or
  asked for its month and year. So a date here is a year, a month and a day.
\<close>

record date =
  year :: nat
  month :: nat
  day :: nat

definition is_leap :: "nat \<Rightarrow> bool" where
  "is_leap y = (y mod 4 = 0 \<and> (y mod 100 \<noteq> 0 \<or> y mod 400 = 0))"

definition days_in_month :: "nat \<Rightarrow> nat \<Rightarrow> nat" where
  "days_in_month y m =
     (if m = 2 then (if is_leap y then 29 else 28)
      else if m = 4 \<or> m = 6 \<or> m = 9 \<or> m = 11 then 30 else 31)"

definition valid_date :: "date \<Rightarrow> bool" where
  "valid_date d =
     (1 \<le> year d \<and> year d \<le> 9999 \<and> 1 \<le> month d \<and> month d \<le> 12 \<and>
      1 \<le> day d \<and> day d \<le> days_in_month (year d) (month d))"

text \<open>
  Comparison of two dates, as the comparison of the instants they stand for: the
  lexicographic order on year, month and day.
\<close>

definition date_key :: "date \<Rightarrow> nat \<times> nat \<times> nat" where
  "date_key d = (year d, month d, day d)"

definition date_le :: "date \<Rightarrow> date \<Rightarrow> bool" where
  "date_le a b = (date_key a \<le> date_key b)"

text \<open>
  A \<open>Timestamp\<close> counts nanoseconds in 64 bits (the \<open>datetime64[ns]\<close> of pandas 2,
  which \<open>pd.to_datetime\<close> produces): at midnight it reaches from 22 September 1677 to
  11 April 2262.
\<close>

definition in_ts_bounds :: "date \<Rightarrow> bool" where
  "in_ts_bounds d =
     (date_le \<lparr>year = 1677, month = 9, day = 22\<rparr> d \<and>
      date_le d \<lparr>year = 2262, month = 4, day = 11\<rparr>)"

text \<open>The day of the week, from the proleptic Gregorian ordinal (Monday is 0).\<close>

definition days_before_year :: "nat \<Rightarrow> nat" where
  "days_before_year y =
     (let p = y - 1 in p * 365 + p div 4 - p div 100 + p div 400)"

definition days_before_month :: "nat \<Rightarrow> nat \<Rightarrow> nat" where
  "days_before_month y m = sum_list (map (days_in_month y) [1..<m])"

definition toordinal :: "date \<Rightarrow> nat" where
  "toordinal d = days_before_year (year d) + days_before_month (year d) (month d) + day d"

definition weekday :: "date \<Rightarrow> nat" where
  "weekday d = (toordinal d + 6) mod 7"

definition day_names :: "string list" where
  "day_names =
     [''Monday'', ''Tuesday'', ''Wednesday'', ''Thursday'', ''Friday'', ''Saturday'', ''Sunday'']"

definition month_names :: "string list" where
  "month_names =
     [''January'', ''February'', ''March'', ''April'', ''May'', ''June'', ''July'',
      ''August'', ''September'', ''October'', ''November'', ''December'']"

text \<open>
  \<open>strftime("%d/%m/%Y")\<close> and \<open>strftime("%A, %d %B %Y")\<close>, with the English names.
  The year is written with all its digits and no padding, as the C library does; from
  the year 1000 on that is four digits.
\<close>

definition strftime_dmY :: "date \<Rightarrow> string" where
  "strftime_dmY d = pad2 (day d) @ ''/'' @ pad2 (month d) @ ''/'' @ str_nat (year d)"

definition strftime_AdBY :: "date \<Rightarrow> string" where
  "strftime_AdBY d =
     day_names ! weekday d @ '', '' @ pad2 (day d) @ '' '' @
     month_names ! ((month d - 1) mod 12) @ '' '' @ str_nat (year d)"

section \<open>Exceptions\<close>

text \<open>
  Every \<open>raise\<close> of the program and of the library calls it makes is a value: a result
  is \<open>Inl e\<close> for the exception \<open>e\<close>, or \<open>Inr v\<close> for the value returned.
\<close>

datatype exn =
  ValueError string
  | KeyError string
  | AttributeError string
  | IndexError string
  | ServiceError string

text \<open>\<open>str(e)\<close>: the message; a \<open>KeyError\<close> shows its key quoted.\<close>

fun str_exn :: "exn \<Rightarrow> string" where
  "str_exn (ValueError m) = m"
| "str_exn (KeyError k) = [CHR 0x27] @ k @ [CHR 0x27]"
| "str_exn (AttributeError m) = m"
| "str_exn (IndexError m) = m"
| "str_exn (ServiceError m) = m"

text \<open>The constructor \<open>datetime(year, month, day)\<close>, which refuses what is not a calendar date.\<close>

definition datetime :: "nat \<Rightarrow> nat \<Rightarrow> nat \<Rightarrow> exn + date" where
  "datetime y m d =
     (if \<not> (1 \<le> y \<and> y \<le> 9999) then Inl (ValueError (''year '' @ str_nat y @ '' is out of range''))
      else if \<not> (1 \<le> m \<and> m \<le> 12) then Inl (ValueError ''month must be in 1..12'')
      else if \<not> (1 \<le> d \<and> d \<le> days_in_month y m)
      then Inl (ValueError ''day is out of range for month'')
      else Inr \<lparr>year = y, month = m, day = d\<rparr>)"

text \<open>A value of the \<open>Date\<close> column, or of a parsed query: a \<open>Timestamp\<close> or \<open>NaT\<close>.\<close>

datatype timestamp = NaT | Timestamp date

text \<open>
  \<open>pd.to_datetime(x, format="%d/%m/%Y", errors="coerce")\<close>. A text must match
  \<open>(3[0-1]|[1-2]\d|0[1-9]|[1-9]| [1-9])/(1[0-2]|0[1-9]|[1-9])/(\d\d\d\d)\<close> with nothing left
  over and name a calendar date inside the bounds of a \<open>Timestamp\<close>; any other text is
  coerced to \<open>NaT\<close>. The scalar \<open>None\<close> is returned as it is.
\<close>

definition is_digit19 :: "char \<Rightarrow> bool" where
  "is_digit19 c = (c \<in> set ''123456789'')"

fun re_d :: "string \<Rightarrow> bool" where
  "re_d [a, b] =
     ((a = CHR ''3'' \<and> (b = CHR ''0'' \<or> b = CHR ''1'')) \<or>
      ((a = CHR ''1'' \<or> a = CHR ''2'') \<and> is_digit b) \<or>
      (a = CHR ''0'' \<and> is_digit19 b) \<or>
      (a = CHR '' '' \<and> is_digit19 b))"
| "re_d [a] = is_digit19 a"
| "re_d _ = False"

fun re_m :: "string \<Rightarrow> bool" where
  "re_m [a, b] =
     ((a = CHR ''1'' \<and> (b = CHR ''0'' \<or> b = CHR ''1'' \<or> b = CHR ''2'')) \<or>
      (a = CHR ''0'' \<and> is_digit19 b))"
| "re_m [a] = is_digit19 a"
| "re_m _ = False"

definition re_Y :: "string \<Rightarrow> bool" where
  "re_Y s = (length s = 4 \<and> list_all is_digit s)"

definition parse_dmY :: "string \<Rightarrow> timestamp" where
  "parse_dmY s =
     (case split_on CHR ''/'' s of
        [ds, ms, ys] \<Rightarrow>
          if re_d ds \<and> re_m ms \<and> re_Y ys
          then (case (py_int ds, py_int ms, py_int ys) of
                  (Some d, Some m, Some y) \<Rightarrow>
                    (let t = \<lparr>year = y, month = m, day = d\<rparr>
                     in if valid_date t \<and> in_ts_bounds t then Timestamp t else NaT)
                | _ \<Rightarrow> NaT)
          else NaT
      | _ \<Rightarrow> NaT)"

definition pd_to_datetime :: "string option \<Rightarrow> timestamp option" where
  "pd_to_datetime x = (case x of None \<Rightarrow> None | Some s \<Rightarrow> Some (parse_dmY s))"

text \<open>
  \<open>query_date.strftime('%A, %d %B %Y')\<close>: \<open>None\<close> has no such attribute, and \<open>NaT\<close>
  does not support it.
\<close>

definition query_strftime :: "timestamp option \<Rightarrow> exn + string" where
  "query_strftime q =
     (case q of
        None \<Rightarrow> Inl (AttributeError
          ([CHR 0x27] @ ''NoneType'' @ [CHR 0x27] @ '' object has no attribute '' @
           [CHR 0x27] @ ''strftime'' @ [CHR 0x27]))
      | Some NaT \<Rightarrow> Inl (ValueError ''NaTType does not support strftime'')
      | Some (Timestamp d) \<Rightarrow> Inr (strftime_AdBY d))"

section \<open>The roster table\<close>

text \<open>
  One row of \<open>roster_df\<close> after the module has loaded it: the parsed \<open>Date\<close>
  (\<open>NaT\<close> for a missing value or a text that is no date) and the four shift columns,
  which \<open>astype(str)\<close> has made strings.
\<close>

record row =
  Date :: timestamp
  Day :: string
  Night :: string
  Day_on_call :: string
  Night_on_call :: string

text \<open>
  A row as \<open>read_csv\<close> gives it: the \<open>Date\<close> text and the four cells, \<open>None\<close> for a
  missing value (\<open>NaN\<close>).
\<close>

record raw_row =
  raw_Date :: "string option"
  raw_Day :: "string option"
  raw_Night :: "string option"
  raw_Day_on_call :: "string option"
  raw_Night_on_call :: "string option"

text \<open>
  The clean-up loop over the shift columns:
  \<open>astype(str).str.replace("\n", " ").str.strip()\<close>. \<open>astype(str)\<close> turns a missing
  value into the text \<open>nan\<close>.
\<close>

definition clean_cell :: "string option \<Rightarrow> string" where
  "clean_cell c =
     strip (replace_char (CHR 0x0A) CHR '' '' (case c of None \<Rightarrow> ''nan'' | Some s \<Rightarrow> s))"

definition load_row :: "raw_row \<Rightarrow> row" where
  "load_row r =
     \<lparr>Date = (case raw_Date r of None \<Rightarrow> NaT | Some s \<Rightarrow> parse_dmY s),
      Day = clean_cell (raw_Day r),
      Night = clean_cell (raw_Night r),
      Day_on_call = clean_cell (raw_Day_on_call r),
      Night_on_call = clean_cell (raw_Night_on_call r)\<rparr>"

definition load_roster :: "raw_row list \<Rightarrow> row list" where
  "load_roster csv = map load_row csv"

definition shift_columns :: "string list" where
  "shift_columns = [''Day'', ''Night'', ''Day on call'', ''Night on call'']"

definition WIFE_NAME :: string where
  "WIFE_NAME = ''Karunya Subramaniyan''"

text \<open>\<open>r[col]\<close> for a shift column \<open>col\<close>; \<open>None\<close> for any other name.\<close>

definition column :: "string \<Rightarrow> row \<Rightarrow> string option" where
  "column col r =
     (if col = ''Day'' then Some (Day r)
      else if col = ''Night'' then Some (Night r)
      else if col = ''Day on call'' then Some (Day_on_call r)
      else if col = ''Night on call'' then Some (Night_on_call r)
      else None)"

text \<open>\<open>pd.notna(v)\<close> on a cell of a shift column: the cell is a string, never a missing value.\<close>

definition pd_notna :: "string \<Rightarrow> bool" where
  "pd_notna v = True"

text \<open>\<open>roster_df["Date"] >= today\<close> and \<open>roster_df["Date"] == query_date\<close>, row by row:
  a comparison with \<open>NaT\<close> on either side is false.\<close>

definition Date_ge :: "row \<Rightarrow> date \<Rightarrow> bool" where
  "Date_ge r today = (case Date r of NaT \<Rightarrow> False | Timestamp d \<Rightarrow> date_le today d)"

definition Date_eq :: "row \<Rightarrow> timestamp option \<Rightarrow> bool" where
  "Date_eq r query_date =
     (case (Date r, query_date) of (Timestamp d, Some (Timestamp q)) \<Rightarrow> d = q | _ \<Rightarrow> False)"

text \<open>
  \<open>sort_values("Date")\<close>: ascending, \<open>NaT\<close> last. (pandas does not fix the order of rows
  with equal dates; this sort keeps them in table order.)
\<close>

definition Date_sort_key :: "row \<Rightarrow> nat \<times> nat \<times> nat \<times> nat" where
  "Date_sort_key r = (case Date r of NaT \<Rightarrow> (1, 0, 0, 0) | Timestamp d \<Rightarrow> (0, date_key d))"

definition sort_values_Date :: "row list \<Rightarrow> row list" where
  "sort_values_Date rows = sort_key Date_sort_key rows"

section \<open>Replies\<close>

text \<open>The characters beyond ASCII of the program's replies, as UTF-8.\<close>

definition emoji_smile :: string where
  "emoji_smile = [CHR 0xF0, CHR 0x9F, CHR 0x98, CHR 0x8A]"

definition emoji_blossom :: string where
  "emoji_blossom = [CHR 0xF0, CHR 0x9F, CHR 0x8C, CHR 0xB8]"

definition emoji_party :: string where
  "emoji_party = [CHR 0xF0, CHR 0x9F, CHR 0x8E, CHR 0x89]"

definition emoji_heart :: string where
  "emoji_heart = [CHR 0xF0, CHR 0x9F, CHR 0x92, CHR 0x99]"

definition emoji_sweat :: string where
  "emoji_sweat = [CHR 0xF0, CHR 0x9F, CHR 0x98, CHR 0x85]"

definition emoji_thinking :: string where
  "emoji_thinking = [CHR 0xF0, CHR 0x9F, CHR 0xA4, CHR 0x94]"

definition apostrophe :: string where
  "apostrophe = [CHR 0xE2, CHR 0x80, CHR 0x99]"

definition no_upcoming_msg :: "string \<Rightarrow> string" where
  "no_upcoming_msg what =
     ''Hey Karunya! '' @ emoji_blossom @ '' No upcoming '' @ what @
     '' found. Enjoy your time off! '' @ emoji_party"

definition next_shift_msg :: "string \<Rightarrow> string \<Rightarrow> string" where
  "next_shift_msg shift_info formatted_date =
     ''Hey Karunya! '' @ emoji_smile @ '' Your next **'' @ shift_info @
     ''** shift is on **'' @ formatted_date @ ''**. '' @
     ''Take care and have a great day! '' @ emoji_heart"

definition no_row_msg :: "string \<Rightarrow> string" where
  "no_row_msg formatted_date =
     ''Hey Karunya! '' @ emoji_smile @ '' You have **no shifts** on **'' @ formatted_date @
     ''**. Enjoy your day off! '' @ emoji_party"

definition no_shifts_msg :: "string \<Rightarrow> string" where
  "no_shifts_msg formatted_date =
     ''Hey Karunya! '' @ emoji_smile @ '' You have **no shifts** on **'' @ formatted_date @
     ''**. Enjoy your time off! '' @ emoji_party"

definition working_msg :: "string \<Rightarrow> string \<Rightarrow> string" where
  "working_msg formatted_date shift_details =
     ''Hey Karunya! '' @ emoji_smile @ '' On **'' @ formatted_date @
     ''**, you are working **'' @ shift_details @ ''**. Take care! '' @ emoji_heart"

definition no_shifts_found_msg :: "string \<Rightarrow> string" where
  "no_shifts_found_msg formatted_date = ''No shifts found on '' @ formatted_date @ ''.''"

definition schedule_line :: "string \<times> string \<Rightarrow> string" where
  "schedule_line p = ''  - '' @ fst p @ '': '' @ snd p"

definition schedule_msg :: "string \<Rightarrow> string \<Rightarrow> string" where
  "schedule_msg formatted_date shift_details =
     ''Here'' @ apostrophe @ ''s the shift schedule for **'' @ formatted_date @ ''**:'' @
     [CHR 0x0A, CHR 0x0A] @ shift_details @ [CHR 0x0A, CHR 0x0A] @
     ''Hope this helps! '' @ emoji_smile"

definition error_msg :: "exn \<Rightarrow> string" where
  "error_msg e =
     ''Oops! Something went wrong while processing your request. '' @ emoji_sweat @
     '' Please try again later. Error: '' @ str_exn e"

definition clarification_msg :: string where
  "clarification_msg =
     ''Hmm, I didn'' @ [CHR 0x27] @ ''t quite catch that. '' @ emoji_thinking @
     '' Could you rephrase your question? '' @
     ''For example, you can ask: '' @ [CHR 0x27] @ ''When is my next shift?'' @ [CHR 0x27] @
     '' or '' @ [CHR 0x27] @ ''Who is working on 10/10/2023?'' @ [CHR 0x27]"

section \<open>The query handlers\<close>

text \<open>
  \<open>roster_df\<close> is a global of the module. Each handler takes it and returns it with
  its result, so that what a handler does to the table is part of its value.
\<close>

definition row_values :: "row \<Rightarrow> string list" where
  "row_values r = [Day r, Night r, Day_on_call r, Night_on_call r]"

text \<open>
  The rows \<open>future_shifts\<close> of \<open>get_next_shift\<close>. A non-empty \<open>shift_type\<close> selects
  by \<open>str.contains(WIFE_NAME, na=False)\<close> on that column (a name that is no column
  raises); \<open>None\<close> or the empty text selects the rows with \<open>WIFE_NAME in row.values\<close>.
\<close>

fun future_shifts :: "date \<Rightarrow> string option \<Rightarrow> row list \<Rightarrow> exn + row list" where
  "future_shifts today (Some (c # cs)) roster_df =
     (if c # cs \<in> set shift_columns
      then Inr (filter (\<lambda>r. Date_ge r today \<and>
                  (case column (c # cs) r of
                     Some v \<Rightarrow> str_contains v WIFE_NAME | None \<Rightarrow> False)) roster_df)
      else if c # cs = ''Date''
      then Inl (AttributeError ''Can only use .str accessor with string values!'')
      else Inl (KeyError (c # cs)))"
| "future_shifts today _ roster_df =
     Inr (filter (\<lambda>r. Date_ge r today \<and> WIFE_NAME \<in> set (row_values r)) roster_df)"

text \<open>\<open>shift_type if shift_type else 'shifts'\<close>.\<close>

fun shift_label :: "string option \<Rightarrow> string" where
  "shift_label (Some (c # cs)) = c # cs"
| "shift_label _ = ''shifts''"

text \<open>The columns of a row that hold \<open>WIFE_NAME\<close> exactly, in the order of \<open>shift_columns\<close>.\<close>

definition my_columns :: "row \<Rightarrow> string list" where
  "my_columns r = filter (\<lambda>col. column col r = Some WIFE_NAME) shift_columns"

text \<open>\<open>shift_info\<close>: the \<open>shift_type\<close>, or the columns of the row that equal \<open>WIFE_NAME\<close>.\<close>

fun shift_info :: "string option \<Rightarrow> row \<Rightarrow> string" where
  "shift_info (Some (c # cs)) next_shift = c # cs"
| "shift_info _ next_shift = join '', '' (my_columns next_shift)"

definition get_next_shift ::
  "date \<Rightarrow> string option \<Rightarrow> row list \<Rightarrow> (exn + string) \<times> row list" where
  "get_next_shift today shift_type roster_df =
     (case future_shifts today shift_type roster_df of
        Inl e \<Rightarrow> (Inl e, roster_df)
      | Inr fs \<Rightarrow>
          if fs = [] then (Inr (no_upcoming_msg (shift_label shift_type)), roster_df)
          else (case sort_values_Date fs of
                  [] \<Rightarrow> (Inl (IndexError ''single positional indexer is out-of-bounds''), roster_df)
                | next_shift # _ \<Rightarrow>
                    (case query_strftime (Some (Date next_shift)) of
                       Inl e \<Rightarrow> (Inl e, roster_df)
                     | Inr formatted_date \<Rightarrow>
                         (Inr (next_shift_msg (shift_info shift_type next_shift) formatted_date),
                          roster_df))))"

definition get_my_shift_on_date ::
  "string option \<Rightarrow> row list \<Rightarrow> (exn + string) \<times> row list" where
  "get_my_shift_on_date date_query roster_df =
     (let query_date = pd_to_datetime date_query;
          shift_row = filter (\<lambda>r. Date_eq r query_date) roster_df
      in case shift_row of
           [] \<Rightarrow>
             (case query_strftime query_date of
                Inl e \<Rightarrow> (Inl e, roster_df)
              | Inr formatted_date \<Rightarrow> (Inr (no_row_msg formatted_date), roster_df))
         | r0 # _ \<Rightarrow>
             (case query_strftime query_date of
                Inl e \<Rightarrow> (Inl e, roster_df)
              | Inr formatted_date \<Rightarrow>
                  (let shifts = my_columns r0
                   in if shifts = [] then (Inr (no_shifts_msg formatted_date), roster_df)
                      else (Inr (working_msg formatted_date (join '', '' shifts)), roster_df))))"

text \<open>
  The dictionary \<open>shifts\<close> of \<open>get_colleagues_on_date\<close>, as the list of its items: the
  columns whose cell passes \<open>pd.notna\<close>, each with its cell.
\<close>

definition notna_items :: "row \<Rightarrow> (string \<times> string) list" where
  "notna_items r =
     concat (map (\<lambda>col. case column col r of
                          Some v \<Rightarrow> if pd_notna v then [(col, v)] else []
                        | None \<Rightarrow> []) shift_columns)"

definition get_colleagues_on_date ::
  "string option \<Rightarrow> row list \<Rightarrow> (exn + string) \<times> row list" where
  "get_colleagues_on_date date_query roster_df =
     (let query_date = pd_to_datetime date_query;
          shift_row = filter (\<lambda>r. Date_eq r query_date) roster_df
      in case shift_row of
           [] \<Rightarrow>
             (case query_strftime query_date of
                Inl e \<Rightarrow> (Inl e, roster_df)
              | Inr formatted_date \<Rightarrow> (Inr (no_shifts_found_msg formatted_date), roster_df))
         | r0 # _ \<Rightarrow>
             (case query_strftime query_date of
                Inl e \<Rightarrow> (Inl e, roster_df)
              | Inr formatted_date \<Rightarrow>
                  (let shifts = notna_items r0;
                       shift_details = join [CHR 0x0A] (map schedule_line shifts)
                   in (Inr (schedule_msg formatted_date shift_details), roster_df))))"

section \<open>Classification and date extraction\<close>

text \<open>
  The chat completion is outside the program: \<open>gpt question\<close> is the content of its
  first choice, or the exception the call raised. \<open>classify_question\<close> strips and
  lower-cases the content.
\<close>

definition classify_question :: "(string \<Rightarrow> exn + string) \<Rightarrow> string \<Rightarrow> exn + string" where
  "classify_question gpt question =
     (case gpt question of Inl e \<Rightarrow> Inl e | Inr content \<Rightarrow> Inr (lower (strip content)))"

text \<open>
  \<open>re.search(r'(\d{1,2})(?:st|nd|rd|th)?', question)\<close>, group 1: the first digit of the
  text, with the character after it when that is a digit too.
\<close>

definition day_match :: "string \<Rightarrow> string option" where
  "day_match question =
     (case dropWhile (\<lambda>c. \<not> is_digit c) question of
        [] \<Rightarrow> None
      | a # rest \<Rightarrow>
          (case rest of
             [] \<Rightarrow> Some [a]
           | b # _ \<Rightarrow> if is_digit b then Some [a, b] else Some [a]))"

text \<open>
  The search \<open>re.search(r'(January|...|December)', question, re.IGNORECASE)\<close>, group 1:
  the leftmost place of the text where a month name starts, whatever the case of its
  letters, and the text matched there. The text is compared lower-cased with the
  lower-cased names; \<open>month_search\<close> walks the text and its lower-casing together.
\<close>

definition month_numbers :: "(string \<times> nat) list" where
  "month_numbers =
     [(''january'', 1), (''february'', 2), (''march'', 3), (''april'', 4), (''may'', 5),
      (''june'', 6), (''july'', 7), (''august'', 8), (''september'', 9), (''october'', 10),
      (''november'', 11), (''december'', 12)]"

fun month_search :: "string \<Rightarrow> string \<Rightarrow> string option" where
  "month_search (c # cs) (l # ls) =
     (case find (\<lambda>m. prefix m (l # ls)) (map fst month_numbers) of
        Some m \<Rightarrow> Some (take (length m) (c # cs))
      | None \<Rightarrow> month_search cs ls)"
| "month_search _ _ = None"

definition month_match :: "string \<Rightarrow> string option" where
  "month_match question = month_search question (lower question)"

text \<open>\<open>datetime.strptime(text, "%B").month\<close>: the number of the month named, ignoring case.\<close>

definition strptime_B_month :: "string \<Rightarrow> exn + nat" where
  "strptime_B_month t =
     (case map_of month_numbers (lower t) of
        Some m \<Rightarrow> Inr m
      | None \<Rightarrow> Inl (ValueError (''time data '' @ [CHR 0x27] @ t @ [CHR 0x27] @
                    '' does not match format '' @ [CHR 0x27] @ ''%B'' @ [CHR 0x27])))"

text \<open>
  \<open>dateparser.parse(question, settings={'DATE_ORDER': 'DMY'})\<close> is a library heuristic
  outside the program: the function \<open>dateparser_parse\<close> stands for it, \<open>None\<close> when it
  finds no date. \<open>today\<close> is the current date.
\<close>

definition extract_date ::
  "(string \<Rightarrow> date option) \<Rightarrow> date \<Rightarrow> string \<Rightarrow> exn + string option" where
  "extract_date dateparser_parse today question =
     (case dateparser_parse question of
        Some parsed_date \<Rightarrow> Inr (Some (strftime_dmY parsed_date))
      | None \<Rightarrow>
          (case day_match question of
             None \<Rightarrow> Inr None
           | Some g \<Rightarrow>
               (case py_int g of
                  None \<Rightarrow> Inl (ValueError ''invalid literal for int()'')
                | Some day_n \<Rightarrow>
                    (case (case month_match question of
                             Some t \<Rightarrow> strptime_B_month t
                           | None \<Rightarrow> Inr (month today)) of
                       Inl e \<Rightarrow> Inl e
                     | Inr month_n \<Rightarrow>
                         (case datetime (year today) month_n day_n of
                            Inl e \<Rightarrow> Inl e
                          | Inr parsed_date \<Rightarrow> Inr (Some (strftime_dmY parsed_date)))))))"

section \<open>The dispatcher\<close>

type_synonym handler = "row list \<Rightarrow> (exn + string) \<times> row list"

definition category_map :: "date \<Rightarrow> string option \<Rightarrow> (string \<times> handler) list" where
  "category_map today date_query =
     [(''next_shift'', get_next_shift today None),
      (''next_day_shift'', get_next_shift today (Some ''Day'')),
      (''next_night_shift'', get_next_shift today (Some ''Night'')),
      (''next_day_on_call'', get_next_shift today (Some ''Day on call'')),
      (''next_night_on_call'', get_next_shift today (Some ''Night on call'')),
      (''my_shift_on_date'', get_my_shift_on_date date_query),
      (''colleagues_on_date'', get_colleagues_on_date date_query)]"

text \<open>
  \<open>ask_question\<close>: the classification and the date extraction come first and are not
  guarded; only the call of the handler is inside \<open>try\<close>, where any exception becomes
  the apologetic reply.
\<close>

definition ask_question ::
  "(string \<Rightarrow> exn + string) \<Rightarrow> (string \<Rightarrow> date option) \<Rightarrow> date \<Rightarrow> string \<Rightarrow> row list \<Rightarrow>
     (exn + string) \<times> row list" where
  "ask_question gpt dateparser_parse today question roster_df =
     (case classify_question gpt question of
        Inl e \<Rightarrow> (Inl e, roster_df)
      | Inr category \<Rightarrow>
          (case extract_date dateparser_parse today question of
             Inl e \<Rightarrow> (Inl e, roster_df)
           | Inr date_query \<Rightarrow>
               (case map_of (category_map today date_query) category of
                  Some handler \<Rightarrow>
                    (case handler roster_df of
                       (Inl e, roster_df') \<Rightarrow> (Inr (error_msg e), roster_df')
                     | (Inr reply, roster_df') \<Rightarrow> (Inr reply, roster_df'))
                | None \<Rightarrow> (Inr clarification_msg, roster_df))))"

section \<open>Example inputs\<close>

text \<open>
  Concrete inputs for the examples below: a date parser that finds no date, a classifier
  that answers a given label, a current date, and a roster row.
\<close>

definition no_parse :: "string \<Rightarrow> date option" where
  "no_parse question = None"

definition gpt_says :: "string \<Rightarrow> string \<Rightarrow> exn + string" where
  "gpt_says label question = Inr label"

definition mid_june_2024 :: date where
  "mid_june_2024 = \<lparr>year = 2024, month = 6, day = 15\<rparr>"

definition jan_5_2024 :: date where
  "jan_5_2024 = \<lparr>year = 2024, month = 1, day = 5\<rparr>"

definition row_A :: row where
  "row_A =
     \<lparr>Date = Timestamp jan_5_2024, Day = ''A'', Night = '''', Day_on_call = '''',
      Night_on_call = ''''\<rparr>"

text \<open>
  Two date parsers that read one question, a date written in full, as \<open>dateparser\<close>
  does with day-before-month order, and find no date elsewhere.
\<close>

definition parse_written_date :: "string \<Rightarrow> date option" where
  "parse_written_date question =
     (if question = ''10/10/2023'' then Some \<lparr>year = 2023, month = 10, day = 10\<rparr>
      else None)"






text \<open>
  A row as \<open>read_csv\<close> gives it, with a \<open>Night\<close> cell of white space and the two
  on-call cells missing.
\<close>

definition raw_A :: raw_row where
  "raw_A =
     \<lparr>raw_Date = Some ''05/01/2024'', raw_Day = Some ''A'', raw_Night = Some '' '',
      raw_Day_on_call = None, raw_Night_on_call = None\<rparr>"

section \<open>Decimal text and the round trip of a date\<close>

declare str_nat.simps [simp del]

lemma lt10_cases: "n < 10 \<Longrightarrow> n \<in> {0, 1, 2, 3, 4, 5, 6, 7, 8, 9::nat}"
  by auto

lemma digit_char_props:
  assumes "n < 10"
  shows "is_digit (digit_char n)" and "digit_val (digit_char n) = n"
    and "digit_char n \<noteq> CHR ''/''" and "\<not> is_space (digit_char n)"
    and "is_digit19 (digit_char n) = (1 \<le> n)"
    and "(digit_char n = CHR ''0'') = (n = 0)" and "(digit_char n = CHR ''1'') = (n = 1)"
    and "(digit_char n = CHR ''2'') = (n = 2)" and "(digit_char n = CHR ''3'') = (n = 3)"
    and "digit_char n \<noteq> CHR '' ''"
  using lt10_cases [OF assms]
  by (auto simp: digit_char_def is_digit_def digit_val_def is_space_def is_digit19_def)

lemma digit_char_mod: "digit_char (n mod 10) = digit_char n"
  by (simp add: digit_char_def)

lemma pad2_digits: "n < 100 \<Longrightarrow> pad2 n = [digit_char (n div 10), digit_char (n mod 10)]"
  by (cases "n < 10") (simp_all add: pad2_def digit_char_mod str_nat.simps [of n] str_nat.simps [of "n div 10"], simp add: digit_char_def)

lemma str_nat_4: 
  assumes "1000 \<le> y" "y < 10000"
  shows "str_nat y = [digit_char (y div 1000), digit_char (y div 100 mod 10), digit_char (y div 10 mod 10), digit_char (y mod 10)]"
proof -
  have a: "str_nat y = str_nat (y div 10) @ [digit_char y]" using assms by (subst str_nat.simps) simp
  have b: "str_nat (y div 10) = str_nat (y div 10 div 10) @ [digit_char (y div 10)]" using assms by (subst str_nat.simps) simp
  have c: "str_nat (y div 10 div 10) = str_nat (y div 10 div 10 div 10) @ [digit_char (y div 10 div 10)]" using assms by (subst str_nat.simps) simp
  have d: "str_nat (y div 10 div 10 div 10) = [digit_char (y div 10 div 10 div 10)]" using assms by (subst str_nat.simps) simp
  have e: "y div 10 div 10 = y div 100" "y div 100 div 10 = y div 1000" by (simp_all add: div_mult2_eq [symmetric])
  show ?thesis unfolding a b c d by (simp add: digit_char_mod e)
qed

lemma py_int_2: "a < 10 \<Longrightarrow> b < 10 \<Longrightarrow> py_int [digit_char a, digit_char b] = Some (10 * a + b)"
  by (simp add: py_int_def strip_def digit_char_props)

lemma py_int_4: "a < 10 \<Longrightarrow> b < 10 \<Longrightarrow> c < 10 \<Longrightarrow> d < 10 \<Longrightarrow> py_int [digit_char a, digit_char b, digit_char c, digit_char d] = Some (1000 * a + 100 * b + 10 * c + d)"
  by (simp add: py_int_def strip_def digit_char_props)

lemma re_d_pad2: "1 \<le> n \<Longrightarrow> n \<le> 31 \<Longrightarrow> re_d [digit_char (n div 10), digit_char (n mod 10)]"
proof -
  assume a: "1 \<le> n" "n \<le> 31"
  have "n div 10 < 10" "n mod 10 < 10" using a by auto
  moreover have "n div 10 = 0 \<or> n div 10 = 1 \<or> n div 10 = 2 \<or> n div 10 = 3" using a by arith
  moreover have "n div 10 = 3 \<Longrightarrow> n mod 10 = 0 \<or> n mod 10 = 1" using a by arith
  moreover have "n div 10 = 0 \<Longrightarrow> 1 \<le> n mod 10" using a by arith
  ultimately show ?thesis by (auto simp: digit_char_props)
qed

lemma re_m_pad2: "1 \<le> n \<Longrightarrow> n \<le> 12 \<Longrightarrow> re_m [digit_char (n div 10), digit_char (n mod 10)]"
proof -
  assume a: "1 \<le> n" "n \<le> 12"
  have "n div 10 < 10" "n mod 10 < 10" using a by auto
  moreover have "n div 10 = 0 \<or> n div 10 = 1" using a by arith
  moreover have "n div 10 = 1 \<Longrightarrow> n mod 10 = 0 \<or> n mod 10 = 1 \<or> n mod 10 = 2" using a by arith
  moreover have "n div 10 = 0 \<Longrightarrow> 1 \<le> n mod 10" using a by arith
  ultimately show ?thesis by (auto simp: digit_char_props)
qed

lemma decimal_4:
  "1000 * (y div 1000) + 100 * (y div 100 mod 10) + 10 * (y div 10 mod 10) + y mod 10 = (y::nat)"
proof -
  have a: "y = 10 * (y div 10) + y mod 10" by simp
  have b: "y div 10 = 10 * (y div 100) + y div 10 mod 10"
    using div_mult_mod_eq [of "y div 10" 10] by (simp add: div_mult2_eq [symmetric])
  have c: "y div 100 = 10 * (y div 1000) + y div 100 mod 10"
    using div_mult_mod_eq [of "y div 100" 10] by (simp add: div_mult2_eq [symmetric])
  show ?thesis using a b c by linarith
qed

lemma days_in_month_le: "days_in_month y m \<le> 31"
  by (simp add: days_in_month_def)

lemma in_ts_bounds_year: "in_ts_bounds d \<Longrightarrow> 1677 \<le> year d \<and> year d \<le> 2262"
  by (auto simp: in_ts_bounds_def date_le_def date_key_def less_eq_prod_def)

lemma parse_strftime:
  assumes v: "valid_date d" and b: "in_ts_bounds d"
  shows "parse_dmY (strftime_dmY d) = Timestamp d"
proof -
  have y: "1000 \<le> year d" "year d < 10000" using in_ts_bounds_year [OF b] by auto
  have dd: "1 \<le> day d" "day d \<le> 31" using v days_in_month_le [of "year d" "month d"] by (auto simp: valid_date_def)
  have mm: "1 \<le> month d" "month d \<le> 12" using v by (auto simp: valid_date_def)
  define d1 d2 m1 m2 y1 y2 y3 y4 where "d1 = day d div 10" and "d2 = day d mod 10" and "m1 = month d div 10" and "m2 = month d mod 10"
     and "y1 = year d div 1000" and "y2 = year d div 100 mod 10" and "y3 = year d div 10 mod 10" and "y4 = year d mod 10"
  have lt: "d1 < 10" "d2 < 10" "m1 < 10" "m2 < 10" "y1 < 10" "y2 < 10" "y3 < 10" "y4 < 10"
    using dd mm y unfolding d1_def d2_def m1_def m2_def y1_def y2_def y3_def y4_def by auto
  have fmt: "strftime_dmY d = [digit_char d1, digit_char d2] @ CHR ''/'' # ([digit_char m1, digit_char m2] @ CHR ''/'' # [digit_char y1, digit_char y2, digit_char y3, digit_char y4])"
    using dd mm y unfolding d1_def d2_def m1_def m2_def y1_def y2_def y3_def y4_def strftime_dmY_def by (simp add: pad2_digits str_nat_4)
  have sp: "split_on CHR ''/'' (strftime_dmY d) = [[digit_char d1, digit_char d2], [digit_char m1, digit_char m2], [digit_char y1, digit_char y2, digit_char y3, digit_char y4]]"
    unfolding fmt using lt by (simp add: digit_char_props)
  have rd: "re_d [digit_char d1, digit_char d2]" unfolding d1_def d2_def m1_def m2_def y1_def y2_def y3_def y4_def using dd by (rule re_d_pad2)
  have rm: "re_m [digit_char m1, digit_char m2]" unfolding d1_def d2_def m1_def m2_def y1_def y2_def y3_def y4_def using mm by (rule re_m_pad2)
  have ry: "re_Y [digit_char y1, digit_char y2, digit_char y3, digit_char y4]" using lt by (simp add: re_Y_def digit_char_props)
  have vd: "10 * d1 + d2 = day d" "10 * m1 + m2 = month d" "1000 * y1 + 100 * y2 + 10 * y3 + y4 = year d"
    unfolding d1_def d2_def m1_def m2_def y1_def y2_def y3_def y4_def by (simp_all add: decimal_4)
  have rec: "\<lparr>year = year d, month = month d, day = day d\<rparr> = d" by simp
  show ?thesis
    unfolding parse_dmY_def sp using lt rd rm ry v b
    by (simp add: py_int_2 py_int_4 vd rec del: re_d.simps re_m.simps)
qed

section \<open>The roster is only read\<close>

lemma get_next_shift_frame: "snd (get_next_shift today shift_type roster_df) = roster_df"
  by (simp add: get_next_shift_def split: sum.splits list.splits)

lemma get_my_shift_on_date_frame: "snd (get_my_shift_on_date date_query roster_df) = roster_df"
  by (simp add: get_my_shift_on_date_def Let_def split: sum.splits list.splits)

lemma get_colleagues_on_date_frame: "snd (get_colleagues_on_date date_query roster_df) = roster_df"
  by (simp add: get_colleagues_on_date_def Let_def split: sum.splits list.splits)

lemma category_map_frame:
  "map_of (category_map today date_query) category = Some handler \<Longrightarrow> snd (handler roster_df) = roster_df"
  by (auto simp: category_map_def get_next_shift_frame get_my_shift_on_date_frame
      get_colleagues_on_date_frame split: if_splits)

lemma ask_question_frame: "snd (ask_question gpt dateparser_parse today question roster_df) = roster_df"
proof (cases "classify_question gpt question")
  case (Inl e)
  then show ?thesis by (simp add: ask_question_def)
next
  case c: (Inr category)
  show ?thesis
  proof (cases "extract_date dateparser_parse today question")
    case (Inl e)
    with c show ?thesis by (simp add: ask_question_def)
  next
    case d: (Inr date_query)
    show ?thesis
    proof (cases "map_of (category_map today date_query) category")
      case None
      with c d show ?thesis by (simp add: ask_question_def)
    next
      case (Some handler)
      from category_map_frame [OF Some, of roster_df] c d Some show ?thesis
        by (cases "handler roster_df") (auto simp: ask_question_def split: sum.splits)
    qed
  qed
qed

text \<open>
  Claim C9. The handlers and \<open>ask_question\<close> return the roster table they were given:
  its rows, dates and cells are unchanged, whatever the question, the label and the date.
\<close>

theorem roster_read_only:
  "snd (get_next_shift today shift_type roster_df) = roster_df \<and>
   snd (get_my_shift_on_date date_query roster_df) = roster_df \<and>
   snd (get_colleagues_on_date date_query roster_df) = roster_df \<and>
   snd (ask_question gpt dateparser_parse today question roster_df) = roster_df"
  by (simp add: get_next_shift_frame get_my_shift_on_date_frame get_colleagues_on_date_frame ask_question_frame)

section \<open>Evaluations on the example inputs\<close>





lemma day_match_31st: "day_match ''shift on the 31st'' = Some ''31''"
  by (simp add: day_match_def is_digit_def)

lemma py_int_31: "py_int ''31'' = Some 31"
  by (simp add: py_int_def strip_def is_space_def is_digit_def digit_val_def)

lemma month_match_31st: "month_match ''shift on the 31st'' = None"
  by (simp add: month_match_def lower_def lower_char_def month_numbers_def)

lemma extract_date_31st:
  "extract_date no_parse mid_june_2024 ''shift on the 31st'' =
     Inl (ValueError ''day is out of range for month'')"
  by (simp add: extract_date_def no_parse_def day_match_31st py_int_31 month_match_31st
      mid_june_2024_def datetime_def days_in_month_def)

lemma notna_items_all:
  "notna_items r =
     [(''Day'', Day r), (''Night'', Night r), (''Day on call'', Day_on_call r),
      (''Night on call'', Night_on_call r)]"
  by (simp add: notna_items_def shift_columns_def column_def pd_notna_def)

lemma parse_jan_5_2024: "parse_dmY ''05/01/2024'' = Timestamp jan_5_2024"
proof -
  have "valid_date jan_5_2024" "in_ts_bounds jan_5_2024"
    by (simp_all add: jan_5_2024_def valid_date_def days_in_month_def in_ts_bounds_def
        date_le_def date_key_def)
  from parse_strftime [OF this] show ?thesis
    by (simp add: strftime_dmY_def jan_5_2024_def pad2_def str_nat.simps digit_char_def)
qed

text \<open>
  What the load makes of a cell: white space becomes the empty text and a missing value
  the text \<open>nan\<close>; either is a string, which \<open>pd.notna\<close> accepts.
\<close>

lemma load_row_raw_A:
  "load_row raw_A =
     \<lparr>Date = Timestamp jan_5_2024, Day = ''A'', Night = '''', Day_on_call = ''nan'',
      Night_on_call = ''nan''\<rparr>"
  by (simp add: load_row_def raw_A_def clean_cell_def replace_char_def strip_def is_space_def
      parse_jan_5_2024)

lemma strftime_jan_5_2024: "strftime_AdBY jan_5_2024 = ''Friday, 05 January 2024''"
  by (simp add: strftime_AdBY_def jan_5_2024_def weekday_def toordinal_def days_before_year_def
      days_before_month_def days_in_month_def day_names_def month_names_def pad2_def
      str_nat.simps digit_char_def)

section \<open>Dispatch\<close>





lemma extract_date_45:
  "extract_date no_parse mid_june_2024 ''am I on shift 45'' =
     Inl (ValueError ''day is out of range for month'')"
proof -
  have d: "day_match ''am I on shift 45'' = Some ''45''"
    by (simp add: day_match_def is_digit_def)
  have i: "py_int ''45'' = Some 45"
    by (simp add: py_int_def strip_def is_space_def is_digit_def digit_val_def)
  have m: "month_match ''am I on shift 45'' = None"
    by (simp add: month_match_def lower_def lower_char_def month_numbers_def)
  show ?thesis
    by (simp add: extract_date_def no_parse_def d i m mid_june_2024_def datetime_def
        days_in_month_def)
qed

text \<open>
  Claim C3. The date extraction runs before the \<open>try\<close> of \<open>ask_question\<close>. For the
  question \<open>shift on the 31st\<close>, asked in June 2024 with no date found by the date
  parser, the fallback calls \<open>datetime(2024, 6, 31)\<close>; its \<open>ValueError\<close> leaves
  \<open>ask_question\<close>, whatever the label and the roster: no string is returned. The same
  happens with \<open>am I on shift 45\<close>, where the digits are no day of any month.
\<close>

theorem ask_question_invalid_day_raises:
  "fst (ask_question (gpt_says label) no_parse mid_june_2024 ''shift on the 31st'' roster_df) =
     Inl (ValueError ''day is out of range for month'') \<and>
   fst (ask_question (gpt_says label) no_parse mid_june_2024 ''am I on shift 45'' roster_df) =
     Inl (ValueError ''day is out of range for month'')"
  by (simp add: ask_question_def classify_question_def gpt_says_def extract_date_31st
      extract_date_45)

section \<open>Colleagues on a date\<close>

text \<open>
  Claim C2. Every cell of a shift column is a string, so the \<open>pd.notna\<close> filter of
  \<open>get_colleagues_on_date\<close> keeps all four columns. For the row of 5 January 2024 with
  \<open>Day = "A"\<close> and the other cells empty, the reply lists the four columns, the empty
  ones with an empty name, and not the \<open>Day\<close> entry alone.
\<close>

theorem colleagues_lists_empty_slot:
  "fst (get_colleagues_on_date (Some ''05/01/2024'') [row_A]) =
     Inr (schedule_msg ''Friday, 05 January 2024''
           (''  - Day: A'' @ [CHR 0x0A] @ ''  - Night: '' @ [CHR 0x0A] @
            ''  - Day on call: '' @ [CHR 0x0A] @ ''  - Night on call: ''))"
  by (simp add: get_colleagues_on_date_def pd_to_datetime_def parse_jan_5_2024 Date_eq_def
      query_strftime_def strftime_jan_5_2024 notna_items_all schedule_line_def row_A_def Let_def)

section \<open>Date extraction\<close>

lemma datetime_Inr:
  "datetime y m d = Inr t \<Longrightarrow> t = \<lparr>year = y, month = m, day = d\<rparr> \<and> valid_date t"
  by (auto simp: datetime_def valid_date_def split: if_splits)



lemma extract_date_primary:
  "dateparser_parse question = Some p \<Longrightarrow>
     extract_date dateparser_parse today question = Inr (Some (strftime_dmY p))"
  by (simp add: extract_date_def)

lemma extract_date_fallback_Some:
  assumes "dateparser_parse question = None"
    and "extract_date dateparser_parse today question = Inr (Some s)"
  shows "\<exists>m d. valid_date \<lparr>year = year today, month = m, day = d\<rparr> \<and>
           s = strftime_dmY \<lparr>year = year today, month = m, day = d\<rparr>"
  using assms
  by (auto simp: extract_date_def split: option.splits sum.splits dest!: datetime_Inr)

text \<open>
  Claim C7, as the code has it. When the date parser finds no date and the fallback
  returns a date, that date is a calendar date of the current year. When the date parser
  finds a date, \<open>extract_date\<close> returns it as parsed, with the year the parser gave it.
\<close>

theorem fallback_year_is_current:
  "(dateparser_parse question = None \<and>
    extract_date dateparser_parse today question = Inr (Some s) \<longrightarrow>
    (\<exists>m d. valid_date \<lparr>year = year today, month = m, day = d\<rparr> \<and>
            s = strftime_dmY \<lparr>year = year today, month = m, day = d\<rparr>)) \<and>
   (dateparser_parse question = Some p \<longrightarrow>
    extract_date dateparser_parse today question = Inr (Some (strftime_dmY p)))"
  using extract_date_fallback_Some extract_date_primary by blast


lemma strftime_10_10_2023: "strftime_dmY \<lparr>year = 2023, month = 10, day = 10\<rparr> = ''10/10/2023''"
  by (simp add: strftime_dmY_def pad2_def str_nat.simps digit_char_def)


text \<open>
  The year of the text can come from the question: with a parser that reads the question
  \<open>10/10/2023\<close>, the result in 2024 is \<open>10/10/2023\<close>.
\<close>

theorem year_from_text_counterexample:
  "extract_date parse_written_date mid_june_2024 ''10/10/2023'' = Inr (Some ''10/10/2023'') \<and>
   year mid_june_2024 = 2024"
  by (simp add: extract_date_def parse_written_date_def strftime_10_10_2023 mid_june_2024_def)













lemma month_match_5th: "month_match ''shift on the 5th'' = None"
  by (simp add: month_match_def lower_def lower_char_def month_numbers_def)

lemma extract_date_5th:
  "extract_date no_parse mid_june_2024 ''shift on the 5th'' = Inr (Some ''05/06/2024'')"
  by (simp add: extract_date_def no_parse_def day_match_def is_digit_def py_int_def strip_def
      is_space_def digit_val_def month_match_5th mid_june_2024_def datetime_def days_in_month_def
      strftime_dmY_def pad2_def str_nat.simps digit_char_def)



lemma no_parse_None: "no_parse question = None"
  by (simp add: no_parse_def)






theorem fallback_year_is_current_witness:
  "no_parse ''shift on the 5th'' = None \<and>
   extract_date no_parse mid_june_2024 ''shift on the 5th'' = Inr (Some ''05/06/2024'') \<and>
   (\<exists>m d. valid_date \<lparr>year = year mid_june_2024, month = m, day = d\<rparr> \<and>
          ''05/06/2024'' = strftime_dmY \<lparr>year = year mid_june_2024, month = m, day = d\<rparr>) \<and>
   parse_written_date ''10/10/2023'' = Some \<lparr>year = 2023, month = 10, day = 10\<rparr> \<and>
   extract_date parse_written_date mid_june_2024 ''10/10/2023'' =
     Inr (Some (strftime_dmY \<lparr>year = 2023, month = 10, day = 10\<rparr>))"
proof -
  have a: "no_parse ''shift on the 5th'' = None" by (rule no_parse_None)
  have b: "extract_date no_parse mid_june_2024 ''shift on the 5th'' = Inr (Some ''05/06/2024'')"
    by (rule extract_date_5th)
  have c: "parse_written_date ''10/10/2023'' = Some \<lparr>year = 2023, month = 10, day = 10\<rparr>"
    by (simp add: parse_written_date_def)
  show ?thesis
    using a b c
      fallback_year_is_current [of no_parse "''shift on the 5th''" mid_june_2024 "''05/06/2024''"]
      fallback_year_is_current [of parse_written_date "''10/10/2023''" mid_june_2024 _
        "\<lparr>year = 2023, month = 10, day = 10\<rparr>"]
    by blast
qed


section \<open>The next shift\<close>

















section \<open>My shift on a date\<close>















section \<open>The next shift on the example roster\<close>






end
